theory Spec2Isabelle
  imports Main "HOL-Library.Sublist"
begin

section \<open>Python text\<close>

text \<open>
  A Python \<open>str\<close> is a sequence of Unicode code points. A code point is a natural number,
  so that \<open>len\<close>, \<open>split\<close> and \<open>strip\<close> count what Python counts. \<open>U ''abc''\<close> is the
  text of an ASCII literal of the source.
\<close>

type_synonym pystr = "nat list"

definition U :: "string \<Rightarrow> pystr" where
  "U s = map of_char s"

text \<open>
  \<open>str.isspace\<close> on one code point: the code points for which CPython's
  \<open>Py_UNICODE_ISSPACE\<close> holds. These are the characters that \<open>str.strip()\<close> removes.
\<close>

definition py_isspace :: "nat \<Rightarrow> bool" where
  "py_isspace c \<longleftrightarrow>
     (9 \<le> c \<and> c \<le> 13) \<or> (28 \<le> c \<and> c \<le> 32) \<or> c = 133 \<or> c = 160 \<or> c = 5760 \<or>
     (8192 \<le> c \<and> c \<le> 8202) \<or> c = 8232 \<or> c = 8233 \<or> c = 8239 \<or> c = 8287 \<or> c = 12288"

definition lstrip :: "pystr \<Rightarrow> pystr" where
  "lstrip s = dropWhile py_isspace s"

definition rstrip :: "pystr \<Rightarrow> pystr" where
  "rstrip s = rev (dropWhile py_isspace (rev s))"

definition strip :: "pystr \<Rightarrow> pystr" where
  "strip s = rstrip (lstrip s)"

text \<open>
  \<open>s.split(sep)\<close> for a non-empty separator: the text is scanned from the left, each
  occurrence of \<open>sep\<close> closes the current piece and the scan goes on behind it. \<open>acc\<close> holds
  the current piece, reversed. (With an empty separator Python raises \<open>ValueError\<close>; the
  program only splits on the literal \<open>"Day "\<close>.)
\<close>

function split_from :: "pystr \<Rightarrow> pystr \<Rightarrow> pystr \<Rightarrow> pystr list" where
  "split_from sep acc [] = [rev acc]"
| "split_from sep acc (c # cs) =
     (if sep \<noteq> [] \<and> prefix sep (c # cs)
      then rev acc # split_from sep [] (drop (length sep) (c # cs))
      else split_from sep (c # acc) cs)"
  by pat_completeness auto
termination
  by (relation "measure (\<lambda>(sep, acc, s). length s)") (auto simp: neq_Nil_conv)

definition py_split :: "pystr \<Rightarrow> pystr \<Rightarrow> pystr list" where
  "py_split sep s = split_from sep [] s"

text \<open>\<open>sep.join(pieces)\<close>.\<close>

fun py_join :: "pystr \<Rightarrow> pystr list \<Rightarrow> pystr" where
  "py_join sep [] = []"
| "py_join sep [p] = p"
| "py_join sep (p # q # ps) = p @ sep @ py_join sep (q # ps)"

text \<open>The number of positions of a text at which \<open>sep\<close> occurs.\<close>

fun occurrences :: "pystr \<Rightarrow> pystr \<Rightarrow> nat" where
  "occurrences sep [] = 0"
| "occurrences sep (c # cs) = (if prefix sep (c # cs) then 1 else 0) + occurrences sep cs"

section \<open>Itinerary post-processing (a.py, lines 168 to 171)\<close>

definition day_marker :: pystr where
  "day_marker = U ''Day ''"

text \<open>\<open>days = plan_text.split("Day ")\<close>\<close>

definition days :: "pystr \<Rightarrow> pystr list" where
  "days plan_text = py_split day_marker plan_text"

text \<open>
  The sections shown, one expander each: \<open>day_plan.strip()\<close> for every
  \<open>day_plan\<close> of \<open>days[1:]\<close>, in that order.
\<close>

definition day_sections :: "pystr \<Rightarrow> pystr list" where
  "day_sections plan_text = map strip (drop 1 (days plan_text))"


section \<open>Python values and exceptions\<close>

text \<open>
  What the external services hand to the program: a decoded JSON document, that is
  \<open>None\<close>, a bool, a number, a \<open>str\<close>, a list or a dict with \<open>str\<close> keys. A dict is
  the list of its items in insertion order, each key once. Numbers (\<open>int\<close> and \<open>float\<close>)
  are kept abstract in \<open>'n\<close>: the program only tests them for truth and formats them.
\<close>

datatype 'n pyval =
    PNone
  | PBool bool
  | PNum 'n
  | PStr pystr
  | PList "'n pyval list"
  | PDict "(pystr \<times> 'n pyval) list"

datatype key = KStr pystr | KInt int

text \<open>
  The exceptions of the program: the \<open>ValueError\<close> it raises itself, the errors of
  subscripting and of \<open>in\<close>, the error of \<open>str.encode\<close>, and \<open>UpstreamError\<close> for
  whatever an external call raises (a network error, a timeout, a body that is not JSON).
\<close>

datatype exn =
    ValueError pystr
  | KeyError key
  | IndexError
  | TypeError
  | UnicodeEncodeError
  | UpstreamError pystr

text \<open>Sequencing: the first exception raised ends the evaluation.\<close>

definition and_then :: "exn + 'a \<Rightarrow> ('a \<Rightarrow> exn + 'b) \<Rightarrow> exn + 'b" where
  "and_then r f = (case r of Inl e \<Rightarrow> Inl e | Inr v \<Rightarrow> f v)"

text \<open>
  \<open>xs[i]\<close> on a sequence of length \<open>n\<close>: the indices \<open>0\<close> to \<open>n - 1\<close> count from
  the front, \<open>-1\<close> to \<open>-n\<close> from the back, and any other index raises.
\<close>

definition index_seq :: "'a list \<Rightarrow> int \<Rightarrow> exn + 'a" where
  "index_seq xs i =
     (if 0 \<le> i \<and> i < int (length xs) then Inr (xs ! nat i)
      else if i < 0 \<and> - int (length xs) \<le> i then Inr (xs ! nat (int (length xs) + i))
      else Inl IndexError)"

text \<open>
  \<open>v[k]\<close>. A dict raises \<open>KeyError\<close> for a key it does not hold (an integer is never a
  key of a decoded JSON object); a list or a \<open>str\<close> takes integers only; \<open>None\<close>, bools
  and numbers are not subscriptable.
\<close>

fun getitem :: "'n pyval \<Rightarrow> key \<Rightarrow> exn + 'n pyval" where
  "getitem (PDict kvs) (KStr k) =
     (case map_of kvs k of None \<Rightarrow> Inl (KeyError (KStr k)) | Some v \<Rightarrow> Inr v)"
| "getitem (PDict kvs) (KInt i) = Inl (KeyError (KInt i))"
| "getitem (PList xs) (KInt i) = index_seq xs i"
| "getitem (PList xs) (KStr k) = Inl TypeError"
| "getitem (PStr s) (KInt i) = and_then (index_seq s i) (\<lambda>c. Inr (PStr [c]))"
| "getitem (PStr s) (KStr k) = Inl TypeError"
| "getitem PNone k = Inl TypeError"
| "getitem (PBool b) k = Inl TypeError"
| "getitem (PNum n) k = Inl TypeError"

text \<open>\<open>k in s\<close> for two texts: \<open>k\<close> occurs in \<open>s\<close>.\<close>

fun substring :: "pystr \<Rightarrow> pystr \<Rightarrow> bool" where
  "substring k [] = (k = [])"
| "substring k (c # cs) = (prefix k (c # cs) \<or> substring k cs)"

text \<open>
  \<open>k in v\<close> for a text \<open>k\<close>: a key of the dict, an element of the list, a substring of
  the \<open>str\<close>; \<open>TypeError\<close> for a value that is not iterable.
\<close>

fun py_in :: "pystr \<Rightarrow> 'n pyval \<Rightarrow> exn + bool" where
  "py_in k (PDict kvs) = Inr (k \<in> set (map fst kvs))"
| "py_in k (PList xs) = Inr (PStr k \<in> set xs)"
| "py_in k (PStr s) = Inr (substring k s)"
| "py_in k PNone = Inl TypeError"
| "py_in k (PBool b) = Inl TypeError"
| "py_in k (PNum n) = Inl TypeError"

text \<open>
  The elements a \<open>for\<close> loop visits: those of a list, the keys of a dict, the characters
  of a \<open>str\<close>; \<open>TypeError\<close> otherwise.
\<close>

fun py_iter :: "'n pyval \<Rightarrow> exn + 'n pyval list" where
  "py_iter (PList xs) = Inr xs"
| "py_iter (PDict kvs) = Inr (map (\<lambda>kv. PStr (fst kv)) kvs)"
| "py_iter (PStr s) = Inr (map (\<lambda>c. PStr [c]) s)"
| "py_iter PNone = Inl TypeError"
| "py_iter (PBool b) = Inl TypeError"
| "py_iter (PNum n) = Inl TypeError"

section \<open>The environment of the adapters\<close>

text \<open>
  The request \<open>TavilySearch(max_results, topic, api_key).invoke(query)\<close> sends.
\<close>

record search_request =
  max_results :: nat
  topic :: pystr
  api_key :: "pystr option"
  query :: pystr

text \<open>A call to an external service, as the adapters issue them.\<close>

datatype call = Search search_request | HttpGet pystr

text \<open>
  Everything the adapters read and do not define: the two credentials of
  \<open>os.getenv\<close> (\<open>None\<close> when the variable is unset), the search service (building the
  \<open>TavilySearch\<close> tool and invoking it), the HTTP service (\<open>requests.get(url)\<close> followed
  by \<open>.json()\<close>), each of which returns a value or raises, the truth value of a number
  and \<open>str(v)\<close> for a value that is not a \<open>str\<close>.
\<close>

record 'n env =
  tavily_api_key :: "pystr option"
  open_weather_api_key :: "pystr option"
  tavily :: "search_request \<Rightarrow> exn + 'n pyval"
  http_get_json :: "pystr \<Rightarrow> exn + 'n pyval"
  nonzero :: "'n \<Rightarrow> bool"
  str_of :: "'n pyval \<Rightarrow> pystr"

text \<open>The truth value of \<open>v\<close> in a condition.\<close>

fun truthy :: "'n env \<Rightarrow> 'n pyval \<Rightarrow> bool" where
  "truthy env PNone = False"
| "truthy env (PBool b) = b"
| "truthy env (PNum n) = nonzero env n"
| "truthy env (PStr s) = (s \<noteq> [])"
| "truthy env (PList xs) = (xs \<noteq> [])"
| "truthy env (PDict kvs) = (kvs \<noteq> [])"

text \<open>\<open>{v}\<close> inside an f-string: a \<open>str\<close> is inserted as it is.\<close>

fun fstr :: "'n env \<Rightarrow> 'n pyval \<Rightarrow> pystr" where
  "fstr env (PStr s) = s"
| "fstr env v = str_of env v"

section \<open>The tool adapters (a.py, lines 40 to 76)\<close>

text \<open>
  An adapter returns the calls it issued and either the exception that left it or the
  value it returned.
\<close>

definition search_for :: "'n env \<Rightarrow> pystr \<Rightarrow> search_request" where
  "search_for env q =
     \<lparr>max_results = 5, topic = U ''general'', api_key = tavily_api_key env, query = q\<rparr>"

text \<open>
  The loop of \<open>tavily_search\<close> over the results, \<open>combined_content\<close> being the
  accumulator: \<open>if 'content' in result and result['content']\<close> appends
  \<open>f"{result['content']}\n"\<close>.
\<close>

fun combine :: "'n env \<Rightarrow> pystr \<Rightarrow> 'n pyval list \<Rightarrow> exn + pystr" where
  "combine env combined_content [] = Inr combined_content"
| "combine env combined_content (result # rest) =
     (case py_in (U ''content'') result of
        Inl e \<Rightarrow> Inl e
      | Inr False \<Rightarrow> combine env combined_content rest
      | Inr True \<Rightarrow>
          (case getitem result (KStr (U ''content'')) of
             Inl e \<Rightarrow> Inl e
           | Inr c \<Rightarrow>
               if truthy env c
               then combine env (combined_content @ fstr env c @ [10]) rest
               else combine env combined_content rest))"

definition tavily_search :: "'n env \<Rightarrow> pystr \<Rightarrow> call list \<times> (exn + pystr)" where
  "tavily_search env q =
     ([Search (search_for env q)],
      and_then (tavily env (search_for env q)) (\<lambda>response.
      and_then (getitem response (KStr (U ''results''))) (\<lambda>results.
      and_then (py_iter results) (\<lambda>rs.
      and_then (combine env [] rs) (\<lambda>combined_content.
      Inr (strip combined_content))))))"

definition weather_url :: "pystr \<Rightarrow> pystr \<Rightarrow> pystr" where
  "weather_url location k =
     U ''http://api.openweathermap.org/data/2.5/weather?q='' @ location @
     U ''&appid='' @ k @ U ''&units=metric''"

text \<open>
  \<open>f"The current temperature in {location} is {temp}\<degree>C with {description}."\<close>;
  176 is the degree sign.
\<close>

definition weather_sentence :: "'n env \<Rightarrow> pystr \<Rightarrow> 'n pyval \<Rightarrow> 'n pyval \<Rightarrow> pystr" where
  "weather_sentence env location temp description =
     U ''The current temperature in '' @ location @ U '' is '' @ fstr env temp @
     [176] @ U ''C with '' @ fstr env description @ U ''.''"

text \<open>
  \<open>not open_weather_api_key\<close> holds for \<open>None\<close> and for the empty text.
\<close>

definition get_weather :: "'n env \<Rightarrow> pystr \<Rightarrow> call list \<times> (exn + pystr)" where
  "get_weather env location =
     (case open_weather_api_key env of
        None \<Rightarrow> ([], Inl (ValueError (U ''OpenWeather API key is not set.'')))
      | Some k \<Rightarrow>
          if k = [] then ([], Inl (ValueError (U ''OpenWeather API key is not set.'')))
          else
            ([HttpGet (weather_url location k)],
             and_then (http_get_json env (weather_url location k)) (\<lambda>data.
             and_then (getitem data (KStr (U ''main''))) (\<lambda>main.
             and_then (getitem main (KStr (U ''temp''))) (\<lambda>temp.
             and_then (getitem data (KStr (U ''weather''))) (\<lambda>weather.
             and_then (getitem weather (KInt 0)) (\<lambda>weather0.
             and_then (getitem weather0 (KStr (U ''description''))) (\<lambda>description.
             Inr (weather_sentence env location temp description)))))))))"

definition hotel_query :: "pystr \<Rightarrow> pystr" where
  "hotel_query location = U ''Best hotels in '' @ location"

text \<open>
  \<open>response['results'][0]['content'] if response['results'] else "No hotel
  recommendations found."\<close>: the condition is evaluated first.
\<close>

definition get_hotel_recommendations :: "'n env \<Rightarrow> pystr \<Rightarrow> call list \<times> (exn + 'n pyval)" where
  "get_hotel_recommendations env location =
     ([Search (search_for env (hotel_query location))],
      and_then (tavily env (search_for env (hotel_query location))) (\<lambda>response.
      and_then (getitem response (KStr (U ''results''))) (\<lambda>results.
      if truthy env results
      then and_then (getitem results (KInt 0)) (\<lambda>first.
           getitem first (KStr (U ''content'')))
      else Inr (PStr (U ''No hotel recommendations found.'')))))"


section \<open>The agent executor (a.py, lines 84 to 90)\<close>

text \<open>
  The program builds the executor with \<open>max_iterations=15\<close> and
  \<open>max_execution_time=120\<close> (seconds).
\<close>

record loop_limits =
  max_iterations :: nat
  max_execution_time :: nat

definition agent_executor_limits :: loop_limits where
  "agent_executor_limits = \<lparr>max_iterations = 15, max_execution_time = 120\<rparr>"

text \<open>
  Modelled from the spec: the data of the agent loop. The loop itself belongs to the agent
  library and is not part of a.py; sections 3 and 4.4 of the specification describe it. An
  action is what the reasoning engine asks for, a tool call or the final answer. The
  phases are the states of the loop; \<open>Dispatching\<close> carries the tool name and the tool
  input of the pending call. The scratchpad holds the observations and the error hints
  appended after a parse failure.
\<close>

datatype action = Invoke pystr pystr | Finish pystr

datatype abort_reason = IterationLimit | TimeLimit | RetryLimit

datatype phase = Thinking | Dispatching pystr pystr | Done pystr | Aborted abort_reason

datatype entry = Observation action pystr | ErrorHint

text \<open>
  Modelled from the spec: the state of one run. Besides the phase and the scratchpad it
  holds the number of iterations begun, the number of parse failures and the time elapsed.
  Time is counted in ticks of a clock (seconds): every call to the reasoning engine and to
  a tool reports how many ticks it took. \<open>began_at\<close> records the tick at which each
  iteration began, the latest first.
\<close>

record loop_state =
  phase :: phase
  scratchpad :: "entry list"
  iterations :: nat
  retries :: nat
  elapsed :: nat
  began_at :: "nat list"

definition initial :: loop_state where
  "initial = \<lparr>phase = Thinking, scratchpad = [], iterations = 0, retries = 0,
               elapsed = 0, began_at = []\<rparr>"

text \<open>
  Modelled from the spec: one transition of the state machine of section 4.4, which the
  agent library implements outside a.py. The reasoning engine maps the scratchpad (the
  Task and the instructions are fixed during a run) to the parsed action, \<open>None\<close> for text
  that parses as neither an action nor a final answer, and the ticks the call took. The
  registry maps a tool name to its adapter, which returns its text and the ticks it took.

  From \<open>Thinking\<close>: the two global bounds are checked first (between iterations, never
  during a call); then the engine is called. \<open>Finish\<close> leads to \<open>Done\<close>, \<open>Invoke\<close> to
  \<open>Dispatching\<close>; a parse failure increments the retry counter and, while that is under
  the iteration budget, appends an error hint and thinks again, else aborts. From
  \<open>Dispatching\<close>: the tool is looked up and executed, the observation is appended (for an
  unknown name the observation "tool not found"), and the loop thinks again.
\<close>

definition step ::
  "loop_limits \<Rightarrow> (entry list \<Rightarrow> action option \<times> nat) \<Rightarrow>
   (pystr \<rightharpoonup> (pystr \<Rightarrow> pystr \<times> nat)) \<Rightarrow> loop_state \<Rightarrow> loop_state" where
  "step lim engine registry s =
     (case phase s of
        Thinking \<Rightarrow>
          if max_iterations lim \<le> iterations s then s\<lparr>phase := Aborted IterationLimit\<rparr>
          else if max_execution_time lim \<le> elapsed s then s\<lparr>phase := Aborted TimeLimit\<rparr>
          else
            (let (parsed, ticks) = engine (scratchpad s);
                 s' = s\<lparr>iterations := Suc (iterations s), elapsed := elapsed s + ticks,
                        began_at := elapsed s # began_at s\<rparr>
             in case parsed of
                  Some (Finish output_text) \<Rightarrow> s'\<lparr>phase := Done output_text\<rparr>
                | Some (Invoke tool_name tool_input) \<Rightarrow>
                    s'\<lparr>phase := Dispatching tool_name tool_input\<rparr>
                | None \<Rightarrow>
                    if Suc (retries s) < max_iterations lim
                    then s'\<lparr>retries := Suc (retries s),
                            scratchpad := scratchpad s @ [ErrorHint]\<rparr>
                    else s'\<lparr>retries := Suc (retries s), phase := Aborted RetryLimit\<rparr>)
      | Dispatching tool_name tool_input \<Rightarrow>
          (case registry tool_name of
             None \<Rightarrow>
               s\<lparr>phase := Thinking,
                 scratchpad := scratchpad s @
                   [Observation (Invoke tool_name tool_input) (U ''tool not found'')]\<rparr>
           | Some execute \<Rightarrow>
               (let (result, ticks) = execute tool_input
                in s\<lparr>phase := Thinking, elapsed := elapsed s + ticks,
                     scratchpad := scratchpad s @
                       [Observation (Invoke tool_name tool_input) result]\<rparr>))
      | Done output_text \<Rightarrow> s
      | Aborted r \<Rightarrow> s)"

text \<open>Modelled from the spec: \<open>Done\<close> and \<open>Aborted\<close> are the terminal states.\<close>

fun terminal :: "phase \<Rightarrow> bool" where
  "terminal (Done output_text) = True"
| "terminal (Aborted r) = True"
| "terminal Thinking = False"
| "terminal (Dispatching tool_name tool_input) = False"

text \<open>What is left of the iteration budget, counted in steps of the machine.\<close>

fun budget :: "loop_limits \<Rightarrow> loop_state \<Rightarrow> nat" where
  "budget lim s =
     (case phase s of
        Thinking \<Rightarrow> 2 * (max_iterations lim - iterations s) + 2
      | Dispatching tool_name tool_input \<Rightarrow> 2 * (max_iterations lim - iterations s) + 3
      | Done output_text \<Rightarrow> 0
      | Aborted r \<Rightarrow> 0)"


text \<open>
  Modelled from the spec: one run of the loop, transitions from a state until a terminal
  state is reached.
\<close>

function run ::
  "loop_limits \<Rightarrow> (entry list \<Rightarrow> action option \<times> nat) \<Rightarrow>
   (pystr \<rightharpoonup> (pystr \<Rightarrow> pystr \<times> nat)) \<Rightarrow> loop_state \<Rightarrow> loop_state" where
  "run lim engine registry s =
     (if terminal (phase s) then s else run lim engine registry (step lim engine registry s))"
  by pat_completeness auto
termination
proof (relation "measure (\<lambda>(lim, engine, registry, s). budget lim s)")
  show "wf (measure (\<lambda>(lim, engine, registry, s). budget lim s))" by simp
next
  fix lim :: loop_limits and engine :: "entry list \<Rightarrow> action option \<times> nat"
    and registry :: "pystr \<rightharpoonup> (pystr \<Rightarrow> pystr \<times> nat)" and s :: loop_state
  assume "\<not> terminal (phase s)"
  then have "budget lim (step lim engine registry s) < budget lim s"
    by (cases "phase s")
       (auto simp: step_def Let_def split: prod.splits option.splits action.splits)
  then show "((lim, engine, registry, step lim engine registry s), lim, engine, registry, s)
      \<in> measure (\<lambda>(lim, engine, registry, s). budget lim s)"
    by simp
qed

text \<open>The equation of \<open>run\<close> is unfolded one step at a time, never by the simplifier.\<close>

declare run.simps [simp del]

section \<open>The form (a.py, lines 117 to 127)\<close>

text \<open>
  \<open>st.session_state\<close> maps the key of a widget to its value, a text or an integer.
\<close>

datatype sval = SStr pystr | SInt int

type_synonym session_state = "string \<rightharpoonup> sval"

text \<open>\<open>st.number_input("Duration (in days)", min_value=1, max_value=30, ...)\<close>\<close>

definition duration_min :: int where
  "duration_min = 1"

definition duration_max :: int where
  "duration_max = 30"

definition clear_inputs :: "session_state \<Rightarrow> session_state" where
  "clear_inputs session =
     session(''city_input'' \<mapsto> SStr [],
             ''duration_input'' \<mapsto> SInt 1,
             ''interests_input'' \<mapsto> SStr [],
             ''time_input'' \<mapsto> SStr [])"

section \<open>Generating and presenting the plan (a.py, lines 142 to 188)\<close>

text \<open>\<open>str(n)\<close> for an integer: its decimal digits; 48 is the digit zero, 45 the minus sign.\<close>

function str_nat :: "nat \<Rightarrow> pystr" where
  "str_nat n = (if n < 10 then [48 + n] else str_nat (n div 10) @ [48 + n mod 10])"
  by pat_completeness auto
termination
  by (relation "measure (\<lambda>n. n)") auto

definition str_int :: "int \<Rightarrow> pystr" where
  "str_int i = (if i < 0 then 45 # str_nat (nat (- i)) else str_nat (nat i))"

text \<open>
  \<open>text.encode("utf-8")\<close>: one to four bytes for a code point; a surrogate (and a number
  that is no code point) cannot be encoded.
\<close>

definition utf8_char :: "nat \<Rightarrow> exn + nat list" where
  "utf8_char c =
     (if c < 128 then Inr [c]
      else if c < 2048 then Inr [192 + c div 64, 128 + c mod 64]
      else if 55296 \<le> c \<and> c \<le> 57343 then Inl UnicodeEncodeError
      else if c < 65536 then Inr [224 + c div 4096, 128 + c div 64 mod 64, 128 + c mod 64]
      else if c < 1114112
        then Inr [240 + c div 262144, 128 + c div 4096 mod 64, 128 + c div 64 mod 64,
                  128 + c mod 64]
      else Inl UnicodeEncodeError)"

fun encode_utf8 :: "pystr \<Rightarrow> exn + nat list" where
  "encode_utf8 [] = Inr []"
| "encode_utf8 (c # cs) =
     (case utf8_char c of
        Inl e \<Rightarrow> Inl e
      | Inr bs \<Rightarrow> (case encode_utf8 cs of Inl e \<Rightarrow> Inl e | Inr rest \<Rightarrow> Inr (bs @ rest)))"

definition user_query :: "pystr \<Rightarrow> int \<Rightarrow> pystr \<Rightarrow> pystr \<Rightarrow> pystr" where
  "user_query city duration interests time_of_year =
     U ''Plan a '' @ str_int duration @ U ''-day trip to '' @ city @ U '' in '' @
     time_of_year @ U '', focusing on '' @ interests @ U ''. '' @
     U ''Break the itinerary into daily activities in paragraph format. '' @
     U ''Include travel suggestions, sightseeing, food, and cultural experiences. '' @
     U ''Also include climate information and typical temperature ranges for that time of year. '' @
     U ''Present each day separately and clearly labeled (Day 1, Day 2, etc).''"

record download_button =
  label :: pystr
  data :: "nat list"
  file_name :: pystr
  mime :: pystr

text \<open>
  What the page shows, in order. \<open>ErrorBox e\<close> is
  \<open>st.error(f"... Something went wrong: {e}")\<close>; \<open>Expander l b\<close> is an expanded
  \<open>st.expander(l)\<close> holding \<open>st.write(b)\<close>.
\<close>

datatype widget =
    Warning pystr
  | Success pystr
  | Expander pystr pystr
  | Download download_button
  | ErrorBox exn

text \<open>
  \<open>for i, day_plan in enumerate(days[1:], start=1)\<close>: one expander for each section,
  labelled with its position; 128197 is the calendar sign of the label.
\<close>

definition expander :: "nat \<times> pystr \<Rightarrow> widget" where
  "expander p =
     Expander ([128197] @ U '' Day '' @ str_nat (fst p))
              (U ''**Day '' @ str_nat (fst p) @ U ''**: '' @ snd p)"

definition expanders :: "pystr \<Rightarrow> widget list" where
  "expanders plan_text =
     map expander (zip [1 ..< Suc (length (day_sections plan_text))] (day_sections plan_text))"

text \<open>\<open>f"AI Travel Plan for {city}\n\n{plan_text}"\<close>, the text written to \<open>plan_bytes\<close>.\<close>

definition download_text :: "pystr \<Rightarrow> pystr \<Rightarrow> pystr" where
  "download_text city plan_text = U ''AI Travel Plan for '' @ city @ [10, 10] @ plan_text"

definition download_for :: "pystr \<Rightarrow> nat list \<Rightarrow> download_button" where
  "download_for city plan_bytes =
     \<lparr>label = [128229] @ U '' Download Travel Plan'', data = plan_bytes,
      file_name = city @ U ''_travel_plan.txt'', mime = U ''text/plain''\<rparr>"

text \<open>
  The body of \<open>if submitted:\<close>. \<open>agent_executor\<close> stands for
  \<open>agent_executor.invoke({"input": user_query})["output"]\<close>: the final answer text of a
  run, or the exception the run raised. Every exception of the \<open>try\<close> block, also one of
  the encoding after the plan has been shown, ends in the error box.
\<close>

definition on_submit ::
  "(pystr \<Rightarrow> exn + pystr) \<Rightarrow> pystr \<Rightarrow> int \<Rightarrow> pystr \<Rightarrow> pystr \<Rightarrow> widget list" where
  "on_submit agent_executor city duration interests time_of_year =
     (if city = [] \<or> interests = [] \<or> time_of_year = []
      then [Warning (U ''Please fill in all required fields.'')]
      else
        (case agent_executor (user_query city duration interests time_of_year) of
           Inl e \<Rightarrow> [ErrorBox e]
         | Inr plan_text \<Rightarrow>
             Success ([9989] @ U '' Here'' @ [39] @ U ''s your travel plan:'') #
             expanders plan_text @
             (case encode_utf8 (download_text city plan_text) of
                Inl e \<Rightarrow> [ErrorBox e]
              | Inr plan_bytes \<Rightarrow> [Download (download_for city plan_bytes)])))"


section \<open>Stubbed services and runs\<close>

text \<open>
  Environments with canned services, for running the adapters on concrete inputs. Numbers
  are integers there, and a value that is not a text is formatted as its digits or as
  dots.
\<close>

definition stub_str_of :: "int pyval \<Rightarrow> pystr" where
  "stub_str_of v = (case v of PNum n \<Rightarrow> str_int n | _ \<Rightarrow> U ''...'')"

definition stub_env ::
  "(search_request \<Rightarrow> exn + int pyval) \<Rightarrow> (pystr \<Rightarrow> exn + int pyval) \<Rightarrow> pystr option \<Rightarrow>
   int env" where
  "stub_env search http weather_key =
     \<lparr>tavily_api_key = Some (U ''tvly-key''), open_weather_api_key = weather_key,
      tavily = search, http_get_json = http, nonzero = (\<lambda>n. n \<noteq> 0),
      str_of = stub_str_of\<rparr>"

text \<open>Both services raise: the network is down. The weather credential is configured.\<close>

definition offline_env :: "int env" where
  "offline_env =
     stub_env (\<lambda>r. Inl (UpstreamError (U ''connection refused'')))
              (\<lambda>url. Inl (UpstreamError (U ''connection refused'')))
              (Some (U ''owm-key''))"

text \<open>The search service answers \<open>{'results': []}\<close>.\<close>

definition no_results_env :: "int env" where
  "no_results_env =
     stub_env (\<lambda>r. Inr (PDict [(U ''results'', PList [])]))
              (\<lambda>url. Inl (UpstreamError (U ''connection refused'')))
              (Some (U ''owm-key''))"



text \<open>
  The weather service answers
  \<open>{"main": {"humidity": 40}, "weather": [{"description": "clear sky"}]}\<close>: the
  temperature is missing.
\<close>

definition no_temperature_env :: "int env" where
  "no_temperature_env =
     stub_env (\<lambda>r. Inl (UpstreamError (U ''connection refused'')))
              (\<lambda>url. Inr (PDict [(U ''main'', PDict [(U ''humidity'', PNum 40)]),
                                 (U ''weather'',
                                  PList [PDict [(U ''description'', PStr (U ''clear sky''))]])]))
              (Some (U ''owm-key''))"

text \<open>The weather credential is not set; the weather service would answer.\<close>

definition unconfigured_env :: "int env" where
  "unconfigured_env =
     stub_env (\<lambda>r. Inl (UpstreamError (U ''connection refused'')))
              (\<lambda>url. Inr (PDict [(U ''main'', PDict [(U ''temp'', PNum 21)]),
                                 (U ''weather'',
                                  PList [PDict [(U ''description'', PStr (U ''clear sky''))]])]))
              None"

text \<open>A run of the agent that answers with one day after a welcome.\<close>

definition welcome_agent :: "pystr \<Rightarrow> exn + pystr" where
  "welcome_agent q = Inr (U ''Welcome. Day 1: walk'')"

text \<open>
  A reasoning engine that finishes at its first call, after 500 ticks, and one whose
  answers never parse, one tick each.
\<close>

definition slow_engine :: "entry list \<Rightarrow> action option \<times> nat" where
  "slow_engine sp = (Some (Finish (U ''Day 1: rest'')), 500)"

definition babbling_engine :: "entry list \<Rightarrow> action option \<times> nat" where
  "babbling_engine sp = (None, 1)"

text \<open>A text is trimmed: it neither begins nor ends with whitespace.\<close>

definition trimmed :: "pystr \<Rightarrow> bool" where
  "trimmed s \<longleftrightarrow> s = [] \<or> (\<not> py_isspace (hd s) \<and> \<not> py_isspace (last s))"

section \<open>Splitting and trimming\<close>

lemma split_from_nonempty: "split_from sep acc s \<noteq> []"
  by (induction sep acc s rule: split_from.induct) auto

lemma py_join_Cons: "ps \<noteq> [] \<Longrightarrow> py_join sep (p # ps) = p @ sep @ py_join sep ps"
  by (cases ps) auto

lemma py_join_split_from: "py_join sep (split_from sep acc s) = rev acc @ s"
proof (induction sep acc s rule: split_from.induct)
  case (1 sep acc)
  show ?case by simp
next
  case (2 sep acc c cs)
  show ?case
  proof (cases "sep \<noteq> [] \<and> prefix sep (c # cs)")
    case True
    then obtain r where r: "c # cs = sep @ r" by (auto simp: prefix_def)
    have d: "drop (length sep) (c # cs) = r" by (simp add: r)
    have "split_from sep acc (c # cs) = rev acc # split_from sep [] r"
      using True d by (simp del: drop_Suc_Cons)
    then have "py_join sep (split_from sep acc (c # cs))
        = rev acc @ sep @ py_join sep (split_from sep [] r)"
      by (simp add: py_join_Cons split_from_nonempty)
    also have "py_join sep (split_from sep [] r) = r"
      using 2(1)[OF True] d by simp
    finally show ?thesis by (simp add: r)
  next
    case False
    then have "split_from sep acc (c # cs) = split_from sep (c # acc) cs" by auto
    with 2(2)[OF False] show ?thesis by simp
  qed
qed

lemma day_marker_eq: "day_marker = [68, 97, 121, 32]"
  by (simp add: day_marker_def U_def)

lemma prefix_day_marker:
  "prefix day_marker s \<longleftrightarrow> (\<exists>r. s = 68 # 97 # 121 # 32 # r)"
  by (auto simp: day_marker_eq prefix_def)

lemma occurrences_at_marker:
  assumes "prefix day_marker s"
  shows "occurrences day_marker s = Suc (occurrences day_marker (drop (length day_marker) s))"
proof -
  from assms obtain r where r: "s = 68 # 97 # 121 # 32 # r"
    by (auto simp: prefix_day_marker)
  show ?thesis by (simp add: r day_marker_eq)
qed

lemma length_split_from_day:
  "length (split_from day_marker acc s) = Suc (occurrences day_marker s)"
proof (induction day_marker acc s rule: split_from.induct)
  case (1 acc)
  show ?case by simp
next
  case (2 acc c cs)
  show ?case
  proof (cases "prefix day_marker (c # cs)")
    case True
    have ne: "day_marker \<noteq> []" by (simp add: day_marker_eq)
    from 2(1) True ne occurrences_at_marker[OF True] show ?thesis
      by (simp del: drop_Suc_Cons occurrences.simps)
  next
    case False
    with 2(2) show ?thesis by simp
  qed
qed

lemma length_day_sections: "length (day_sections t) = occurrences day_marker t"
  by (simp add: day_sections_def days_def py_split_def length_split_from_day)

lemma rstrip_prefix: "s = rstrip s @ rev (takeWhile py_isspace (rev s))"
proof -
  have "rev (dropWhile py_isspace (rev s)) @ rev (takeWhile py_isspace (rev s))
      = rev (takeWhile py_isspace (rev s) @ dropWhile py_isspace (rev s))"
    by (simp only: rev_append)
  also have "\<dots> = rev (rev s)" by (simp only: takeWhile_dropWhile_id)
  finally show ?thesis by (simp add: rstrip_def)
qed

lemma lstrip_suffix: "s = takeWhile py_isspace s @ lstrip s"
  by (simp add: lstrip_def)

lemma strip_decompose:
  "s = takeWhile py_isspace s @ strip s @ rev (takeWhile py_isspace (rev (lstrip s)))"
proof -
  have "lstrip s = strip s @ rev (takeWhile py_isspace (rev (lstrip s)))"
    unfolding strip_def by (rule rstrip_prefix)
  with lstrip_suffix[of s] show ?thesis by simp
qed

lemma trimmed_strip: "trimmed (strip s)"
proof (cases "strip s = []")
  case True
  then show ?thesis by (simp add: trimmed_def)
next
  case False
  let ?l = "lstrip s"
  have ne: "dropWhile py_isspace (rev ?l) \<noteq> []"
    using False by (simp add: strip_def rstrip_def)
  have l: "\<not> py_isspace (last (strip s))"
    using hd_dropWhile[OF ne] ne by (simp add: strip_def rstrip_def last_rev)
  have lne: "?l \<noteq> []" using ne by auto
  have h: "\<not> py_isspace (hd ?l)" using lne by (simp add: lstrip_def hd_dropWhile)
  have "?l = strip s @ rev (takeWhile py_isspace (rev ?l))"
    unfolding strip_def by (rule rstrip_prefix)
  then have "hd ?l = hd (strip s @ rev (takeWhile py_isspace (rev ?l)))" by simp
  with False have "hd (strip s) = hd ?l" by simp
  with h l False show ?thesis by (simp add: trimmed_def)
qed



section \<open>The itinerary post-processor\<close>

lemma days_three_pieces:
  assumes "occurrences day_marker t = 3"
  shows "\<exists>p a b c. days t = [p, a, b, c] \<and> t = p @ day_marker @ a @ day_marker @ b @ day_marker @ c"
proof -
  have len: "length (days t) = 4"
    using assms by (simp add: days_def py_split_def length_split_from_day)
  then obtain p r1 where r1: "days t = p # r1" "length r1 = 3"
    by (cases "days t") auto
  then obtain a r2 where r2: "r1 = a # r2" "length r2 = 2"
    by (cases r1) auto
  then obtain b r3 where r3: "r2 = b # r3" "length r3 = 1"
    by (cases r2) auto
  then obtain c where r4: "r3 = [c]"
    by (cases r3) auto
  have d: "days t = [p, a, b, c]" by (simp add: r1 r2 r3 r4)
  have "py_join day_marker (days t) = t"
    by (simp add: days_def py_split_def py_join_split_from)
  then have "t = p @ day_marker @ a @ day_marker @ b @ day_marker @ c"
    by (simp add: d)
  with d show ?thesis by blast
qed

text \<open>
  C3, as the code has it: for a final answer text with no occurrence of the day marker
  \<open>"Day "\<close>, the post-processor produces no section at all. The text before the first
  marker is never shown as a section, and here that is the whole text.
\<close>

theorem no_marker_no_section:
  assumes "occurrences day_marker plan_text = 0"
  shows "day_sections plan_text = []"
proof -
  have "length (day_sections plan_text) = 0"
    using assms by (simp add: length_day_sections)
  then show ?thesis by simp
qed

theorem no_marker_no_section_witness:
  "occurrences day_marker (U ''Enjoy your trip to Goa.'') = 0 \<and>
   day_sections (U ''Enjoy your trip to Goa.'') = []"
proof -
  have h: "occurrences day_marker (U ''Enjoy your trip to Goa.'') = 0"
    by (simp add: day_marker_eq U_def)
  from h no_marker_no_section [OF h] show ?thesis by simp
qed

text \<open>
  C3 as stated fails: the text \<open>"Enjoy your trip to Goa."\<close> holds no marker, and the
  post-processor yields no section rather than the one section \<open>"Enjoy your trip to Goa."\<close>.
\<close>

theorem one_section_counterexample:
  "day_sections (U ''Enjoy your trip to Goa.'') \<noteq> [strip (U ''Enjoy your trip to Goa.'')]"
  by (simp add: day_sections_def days_def py_split_def day_marker_eq U_def)

text \<open>
  C8: a final answer text with exactly three occurrences of the day marker is
  \<open>p + "Day " + a + "Day " + b + "Day " + c\<close>, and the post-processor yields exactly the
  three sections \<open>a.strip()\<close>, \<open>b.strip()\<close>, \<open>c.strip()\<close>, in the order of the text; each
  of them neither begins nor ends with whitespace.
\<close>

theorem three_markers_three_sections:
  assumes "occurrences day_marker plan_text = 3"
  shows "length (day_sections plan_text) = 3 \<and>
         (\<exists>p a b c.
            plan_text = p @ day_marker @ a @ day_marker @ b @ day_marker @ c \<and>
            day_sections plan_text = [strip a, strip b, strip c]) \<and>
         (\<forall>section \<in> set (day_sections plan_text). trimmed section)"
proof -
  from days_three_pieces [OF assms] obtain p a b c where
    d: "days plan_text = [p, a, b, c]" and
    t: "plan_text = p @ day_marker @ a @ day_marker @ b @ day_marker @ c"
    by blast
  have s: "day_sections plan_text = [strip a, strip b, strip c]"
    by (simp add: day_sections_def d)
  have "\<forall>section \<in> set (day_sections plan_text). trimmed section"
    by (simp add: s trimmed_strip)
  with s t show ?thesis by auto
qed

theorem three_markers_three_sections_witness:
  "occurrences day_marker (U ''Trip! Day 1: fort  Day 2: lake Day 3: market '') = 3 \<and>
   day_sections (U ''Trip! Day 1: fort  Day 2: lake Day 3: market '') =
     [U ''1: fort'', U ''2: lake'', U ''3: market''] \<and>
   trimmed (U ''1: fort'') \<and> trimmed (U ''2: lake'') \<and> trimmed (U ''3: market'')"
proof -
  have h: "occurrences day_marker (U ''Trip! Day 1: fort  Day 2: lake Day 3: market '') = 3"
    by (simp add: day_marker_eq U_def)
  have e: "day_sections (U ''Trip! Day 1: fort  Day 2: lake Day 3: market '') =
      [U ''1: fort'', U ''2: lake'', U ''3: market'']"
    by (simp add: day_sections_def days_def py_split_def day_marker_eq U_def
        strip_def lstrip_def rstrip_def py_isspace_def)
  from three_markers_three_sections [OF h] h e show ?thesis by simp
qed

section \<open>The reset action\<close>

text \<open>
  C10: \<open>clear_inputs\<close> sets the destination, the interests and the time of year to the
  empty text and the duration to 1, the minimum of its input field and not an empty value;
  every other entry of the session state is left as it was.
\<close>

theorem clear_inputs_resets_four_fields:
  "clear_inputs session ''city_input'' = Some (SStr []) \<and>
   clear_inputs session ''interests_input'' = Some (SStr []) \<and>
   clear_inputs session ''time_input'' = Some (SStr []) \<and>
   clear_inputs session ''duration_input'' = Some (SInt duration_min) \<and>
   SInt duration_min \<noteq> SStr [] \<and>
   (\<forall>k. k \<notin> {''city_input'', ''duration_input'', ''interests_input'', ''time_input''}
      \<longrightarrow> clear_inputs session k = session k)"
  by (simp add: clear_inputs_def duration_min_def)

theorem clear_inputs_resets_four_fields_witness:
  "''language'' \<notin> {''city_input'', ''duration_input'', ''interests_input'', ''time_input''} \<and>
   clear_inputs [''language'' \<mapsto> SStr (U ''mr''), ''duration_input'' \<mapsto> SInt 7] ''language''
     = Some (SStr (U ''mr'')) \<and>
   clear_inputs [''language'' \<mapsto> SStr (U ''mr''), ''duration_input'' \<mapsto> SInt 7] ''duration_input''
     = Some (SInt 1)"
  using clear_inputs_resets_four_fields
    [of "[''language'' \<mapsto> SStr (U ''mr''), ''duration_input'' \<mapsto> SInt 7]"]
  by (simp add: duration_min_def)

section \<open>The tool adapters\<close>

text \<open>
  C1, as the code has it: when the upstream call of the search adapter, of the hotel
  adapter or (with the credential configured) of the weather adapter raises, be it a
  network error, a timeout or a body that cannot be decoded, the adapter does not catch
  the exception: it raises that same exception and returns no text.
\<close>

theorem adapters_raise_upstream_failure:
  "(tavily env (search_for env q) = Inl e \<longrightarrow> snd (tavily_search env q) = Inl e) \<and>
   (tavily env (search_for env (hotel_query location)) = Inl e \<longrightarrow>
      snd (get_hotel_recommendations env location) = Inl e) \<and>
   (open_weather_api_key env = Some k \<and> k \<noteq> [] \<and>
    http_get_json env (weather_url location k) = Inl e \<longrightarrow>
      snd (get_weather env location) = Inl e)"
  by (simp add: tavily_search_def get_hotel_recommendations_def get_weather_def and_then_def)

theorem adapters_raise_upstream_failure_witness:
  "tavily offline_env (search_for offline_env (U ''forts near Kolhapur''))
     = Inl (UpstreamError (U ''connection refused'')) \<and>
   snd (tavily_search offline_env (U ''forts near Kolhapur''))
     = Inl (UpstreamError (U ''connection refused'')) \<and>
   tavily offline_env (search_for offline_env (hotel_query (U ''Kolhapur'')))
     = Inl (UpstreamError (U ''connection refused'')) \<and>
   snd (get_hotel_recommendations offline_env (U ''Kolhapur''))
     = Inl (UpstreamError (U ''connection refused'')) \<and>
   open_weather_api_key offline_env = Some (U ''owm-key'') \<and> U ''owm-key'' \<noteq> [] \<and>
   http_get_json offline_env (weather_url (U ''Kolhapur'') (U ''owm-key''))
     = Inl (UpstreamError (U ''connection refused'')) \<and>
   snd (get_weather offline_env (U ''Kolhapur''))
     = Inl (UpstreamError (U ''connection refused''))"
proof -
  have t: "\<And>r. tavily offline_env r = Inl (UpstreamError (U ''connection refused''))"
    by (simp add: offline_env_def stub_env_def)
  have h: "\<And>url. http_get_json offline_env url = Inl (UpstreamError (U ''connection refused''))"
    by (simp add: offline_env_def stub_env_def)
  have k: "open_weather_api_key offline_env = Some (U ''owm-key'')"
    by (simp add: offline_env_def stub_env_def)
  have n: "U ''owm-key'' \<noteq> []"
    by (simp add: U_def)
  from adapters_raise_upstream_failure
    [of offline_env "U ''forts near Kolhapur''" "UpstreamError (U ''connection refused'')"
        "U ''Kolhapur''" "U ''owm-key''"]
    t h k n
  show ?thesis by simp
qed

text \<open>
  C1 as stated fails: with the network down, the search adapter does not return a text;
  the error of the service leaves it as an exception.
\<close>

theorem search_adapter_raises_counterexample:
  "snd (tavily_search offline_env (U ''forts near Kolhapur''))
     = Inl (UpstreamError (U ''connection refused''))"
  by (simp add: tavily_search_def offline_env_def stub_env_def and_then_def)

text \<open>
  C4, as the code has it: with the credential configured and a decoded response
  \<open>body\<close>, the weather adapter raises the error of the first lookup that fails among
  \<open>body['main']\<close>, \<open>body['main']['temp']\<close>, \<open>body['weather']\<close>, \<open>body['weather'][0]\<close>
  and \<open>body['weather'][0]['description']\<close>; in particular a response without the
  temperature field raises. It returns a text, the one-sentence summary, only when all of
  them succeed. There is no fallback text.
\<close>

theorem get_weather_raises_on_missing_field:
  assumes "open_weather_api_key env = Some k" and "k \<noteq> []"
    and "http_get_json env (weather_url location k) = Inr body"
  shows "(\<forall>e. getitem body (KStr (U ''main'')) = Inl e \<longrightarrow>
            snd (get_weather env location) = Inl e) \<and>
         (\<forall>main e. getitem body (KStr (U ''main'')) = Inr main \<and>
            getitem main (KStr (U ''temp'')) = Inl e \<longrightarrow>
            snd (get_weather env location) = Inl e) \<and>
         (\<forall>main temp e. getitem body (KStr (U ''main'')) = Inr main \<and>
            getitem main (KStr (U ''temp'')) = Inr temp \<and>
            (getitem body (KStr (U ''weather'')) = Inl e \<or>
             (\<exists>weather. getitem body (KStr (U ''weather'')) = Inr weather \<and>
                (getitem weather (KInt 0) = Inl e \<or>
                 (\<exists>weather0. getitem weather (KInt 0) = Inr weather0 \<and>
                    getitem weather0 (KStr (U ''description'')) = Inl e)))) \<longrightarrow>
            snd (get_weather env location) = Inl e) \<and>
         (\<forall>s. snd (get_weather env location) = Inr s \<longrightarrow>
            (\<exists>main temp weather weather0 description.
               getitem body (KStr (U ''main'')) = Inr main \<and>
               getitem main (KStr (U ''temp'')) = Inr temp \<and>
               getitem body (KStr (U ''weather'')) = Inr weather \<and>
               getitem weather (KInt 0) = Inr weather0 \<and>
               getitem weather0 (KStr (U ''description'')) = Inr description \<and>
               s = weather_sentence env location temp description))"
  using assms
  by (auto simp: get_weather_def and_then_def split: sum.splits)

theorem get_weather_raises_on_missing_field_witness:
  "open_weather_api_key no_temperature_env = Some (U ''owm-key'') \<and> U ''owm-key'' \<noteq> [] \<and>
   http_get_json no_temperature_env (weather_url (U ''Paris'') (U ''owm-key''))
     = Inr (PDict [(U ''main'', PDict [(U ''humidity'', PNum 40)]),
                   (U ''weather'', PList [PDict [(U ''description'', PStr (U ''clear sky''))]])]) \<and>
   getitem (PDict [(U ''main'', PDict [(U ''humidity'', PNum 40)]),
                   (U ''weather'', PList [PDict [(U ''description'', PStr (U ''clear sky''))]])])
           (KStr (U ''main'')) = Inr (PDict [(U ''humidity'', PNum (40::int))]) \<and>
   getitem (PDict [(U ''humidity'', PNum (40::int))]) (KStr (U ''temp''))
     = Inl (KeyError (KStr (U ''temp''))) \<and>
   snd (get_weather no_temperature_env (U ''Paris'')) = Inl (KeyError (KStr (U ''temp'')))"
proof -
  let ?data = "PDict [(U ''main'', PDict [(U ''humidity'', PNum (40::int))]),
                   (U ''weather'', PList [PDict [(U ''description'', PStr (U ''clear sky''))]])]"
  have k: "open_weather_api_key no_temperature_env = Some (U ''owm-key'')"
    by (simp add: no_temperature_env_def stub_env_def)
  have n: "U ''owm-key'' \<noteq> []"
    by (simp add: U_def)
  have r: "http_get_json no_temperature_env (weather_url (U ''Paris'') (U ''owm-key'')) = Inr ?data"
    by (simp add: no_temperature_env_def stub_env_def)
  have m: "getitem ?data (KStr (U ''main'')) = Inr (PDict [(U ''humidity'', PNum (40::int))])"
    by (simp add: U_def)
  have t: "getitem (PDict [(U ''humidity'', PNum (40::int))]) (KStr (U ''temp''))
      = Inl (KeyError (KStr (U ''temp'')))"
    by (simp add: U_def)
  from get_weather_raises_on_missing_field [OF k n r] m t
  have "snd (get_weather no_temperature_env (U ''Paris'')) = Inl (KeyError (KStr (U ''temp'')))"
    by blast
  with k n r m t show ?thesis by blast
qed

text \<open>
  C4 as stated fails: for the location \<open>"Paris"\<close> and a response without the temperature
  field, the weather adapter raises \<open>KeyError('temp')\<close> and returns no text.
\<close>

theorem weather_fallback_counterexample:
  "snd (get_weather no_temperature_env (U ''Paris'')) = Inl (KeyError (KStr (U ''temp'')))"
  by (simp add: get_weather_def no_temperature_env_def stub_env_def and_then_def U_def)

text \<open>
  C5 fails on the code: for a search whose result set is empty, the search adapter
  returns the empty text.
\<close>

theorem search_adapter_empty_results:
  "tavily_search no_results_env (U ''hotels on the Moon'') =
     ([Search \<lparr>max_results = 5, topic = U ''general'', api_key = Some (U ''tvly-key''),
               query = U ''hotels on the Moon''\<rparr>],
      Inr [])"
  by (simp add: tavily_search_def no_results_env_def stub_env_def and_then_def search_for_def
      U_def strip_def lstrip_def rstrip_def)

text \<open>
  C6: when the weather credential is not configured (the variable is unset or empty), the
  weather adapter, for every location, issues no request and raises
  \<open>ValueError("OpenWeather API key is not set.")\<close>; it returns no text.
\<close>

theorem get_weather_requires_credential:
  assumes "open_weather_api_key env = None \<or> open_weather_api_key env = Some []"
  shows "get_weather env location =
           ([], Inl (ValueError (U ''OpenWeather API key is not set.''))) \<and>
         (\<forall>s. snd (get_weather env location) \<noteq> Inr s)"
  using assms by (auto simp: get_weather_def)

theorem get_weather_requires_credential_witness:
  "(open_weather_api_key unconfigured_env = None \<or>
    open_weather_api_key unconfigured_env = Some []) \<and>
   get_weather unconfigured_env (U ''Paris'') =
     ([], Inl (ValueError (U ''OpenWeather API key is not set.'')))"
proof -
  have h: "open_weather_api_key unconfigured_env = None \<or>
      open_weather_api_key unconfigured_env = Some []"
    by (simp add: unconfigured_env_def stub_env_def)
  from get_weather_requires_credential [OF h, of "U ''Paris''"] h show ?thesis by blast
qed




section \<open>Presenting the plan\<close>

text \<open>
  C9, as the code has it: on a successful run, the file offered for download holds the
  UTF-8 bytes of a title line \<open>"AI Travel Plan for <city>"\<close>, an empty line and then the
  complete final answer text; its name is \<open>"<city>_travel_plan.txt"\<close> and its type
  \<open>text/plain\<close>. The page shows, of the same final answer text, the day sections only.
\<close>

theorem download_is_titled_final_text:
  assumes "city \<noteq> []" and "interests \<noteq> []" and "time_of_year \<noteq> []"
    and "agent_executor (user_query city duration interests time_of_year) = Inr plan_text"
    and "encode_utf8 (U ''AI Travel Plan for '' @ city @ [10, 10] @ plan_text) = Inr plan_bytes"
  shows "on_submit agent_executor city duration interests time_of_year =
           Success ([9989] @ U '' Here'' @ [39] @ U ''s your travel plan:'') #
           expanders plan_text @
           [Download \<lparr>label = [128229] @ U '' Download Travel Plan'', data = plan_bytes,
                      file_name = city @ U ''_travel_plan.txt'', mime = U ''text/plain''\<rparr>]"
  using assms by (simp add: on_submit_def download_text_def download_for_def)

theorem download_is_titled_final_text_witness:
  "U ''Pune'' \<noteq> [] \<and> U ''food'' \<noteq> [] \<and> U ''May'' \<noteq> [] \<and>
   welcome_agent (user_query (U ''Pune'') 2 (U ''food'') (U ''May''))
     = Inr (U ''Welcome. Day 1: walk'') \<and>
   encode_utf8 (U ''AI Travel Plan for '' @ U ''Pune'' @ [10, 10] @ U ''Welcome. Day 1: walk'')
     = Inr (U ''AI Travel Plan for Pune'' @ [10, 10] @ U ''Welcome. Day 1: walk'') \<and>
   on_submit welcome_agent (U ''Pune'') 2 (U ''food'') (U ''May'') =
     [Success ([9989] @ U '' Here'' @ [39] @ U ''s your travel plan:''),
      Expander ([128197] @ U '' Day 1'') (U ''**Day 1**: 1: walk''),
      Download \<lparr>label = [128229] @ U '' Download Travel Plan'',
                data = U ''AI Travel Plan for Pune'' @ [10, 10] @ U ''Welcome. Day 1: walk'',
                file_name = U ''Pune_travel_plan.txt'', mime = U ''text/plain''\<rparr>]"
proof -
  have c: "U ''Pune'' \<noteq> []" and i: "U ''food'' \<noteq> []" and t: "U ''May'' \<noteq> []"
    by (simp_all add: U_def)
  have a: "welcome_agent (user_query (U ''Pune'') 2 (U ''food'') (U ''May''))
      = Inr (U ''Welcome. Day 1: walk'')"
    by (simp add: welcome_agent_def)
  have e: "encode_utf8 (U ''AI Travel Plan for '' @ U ''Pune'' @ [10, 10] @ U ''Welcome. Day 1: walk'')
      = Inr (U ''AI Travel Plan for Pune'' @ [10, 10] @ U ''Welcome. Day 1: walk'')"
    by (simp add: U_def utf8_char_def)
  have x: "expanders (U ''Welcome. Day 1: walk'') =
      [Expander ([128197] @ U '' Day 1'') (U ''**Day 1**: 1: walk'')]"
    by (simp add: expanders_def expander_def day_sections_def days_def py_split_def
        day_marker_eq U_def strip_def lstrip_def rstrip_def py_isspace_def)
  have n: "U ''Pune'' @ U ''_travel_plan.txt'' = U ''Pune_travel_plan.txt''"
    by (simp add: U_def)
  from download_is_titled_final_text
    [where agent_executor = welcome_agent and city = "U ''Pune''" and duration = 2
       and interests = "U ''food''" and time_of_year = "U ''May''"
       and plan_text = "U ''Welcome. Day 1: walk''"
       and plan_bytes = "U ''AI Travel Plan for Pune'' @ [10, 10] @ U ''Welcome. Day 1: walk''",
     OF c i t a e]
    x n c i t a e
  show ?thesis by simp
qed

text \<open>
  C9 as stated fails: for the destination \<open>"Pune"\<close> and the final answer
  \<open>"Welcome. Day 1: walk"\<close>, the text written to the download is not the final answer
  text (a title precedes it), and the one section shown is \<open>"1: walk"\<close>, without the
  welcome that the download holds.
\<close>

theorem download_text_counterexample:
  "download_text (U ''Pune'') (U ''Welcome. Day 1: walk'') \<noteq> U ''Welcome. Day 1: walk'' \<and>
   day_sections (U ''Welcome. Day 1: walk'') = [U ''1: walk'']"
  by (simp add: download_text_def day_sections_def days_def py_split_def day_marker_eq U_def
      strip_def lstrip_def rstrip_def py_isspace_def)

section \<open>The agent loop\<close>

lemma run_unfold:
  "run lim engine registry s =
     (if terminal (phase s) then s else run lim engine registry (step lim engine registry s))"
  by (rule run.simps)

lemma run_stops: "terminal (phase s) \<Longrightarrow> run lim engine registry s = s"
  by (subst run_unfold) simp

lemma run_continues:
  "\<not> terminal (phase s) \<Longrightarrow>
   run lim engine registry s = run lim engine registry (step lim engine registry s)"
  by (subst run_unfold) simp

lemma run_terminal: "terminal (phase (run lim engine registry s))"
proof (induction lim engine registry s rule: run.induct)
  case (1 lim engine registry s)
  show ?case
  proof (cases "terminal (phase s)")
    case True
    then show ?thesis by (subst run_unfold) simp
  next
    case False
    with 1 show ?thesis by (subst run_unfold) simp
  qed
qed

lemma step_keeps_bounds:
  assumes "iterations s \<le> max_iterations lim"
    and "length (began_at s) = iterations s"
    and "\<forall>t \<in> set (began_at s). t < max_execution_time lim"
  shows "iterations (step lim engine registry s) \<le> max_iterations lim \<and>
         length (began_at (step lim engine registry s)) = iterations (step lim engine registry s) \<and>
         (\<forall>t \<in> set (began_at (step lim engine registry s)). t < max_execution_time lim)"
  using assms
  by (cases "phase s")
     (auto simp: step_def Let_def split: prod.splits option.splits action.splits)

lemma run_keeps_bounds:
  assumes "iterations s \<le> max_iterations lim"
    and "length (began_at s) = iterations s"
    and "\<forall>t \<in> set (began_at s). t < max_execution_time lim"
  shows "iterations (run lim engine registry s) \<le> max_iterations lim \<and>
         length (began_at (run lim engine registry s)) = iterations (run lim engine registry s) \<and>
         (\<forall>t \<in> set (began_at (run lim engine registry s)). t < max_execution_time lim)"
  using assms
proof (induction lim engine registry s rule: run.induct)
  case (1 lim engine registry s)
  show ?case
  proof (cases "terminal (phase s)")
    case True
    with 1(2-4) show ?thesis by (subst (1 2 3 4) run_unfold) simp
  next
    case False
    from step_keeps_bounds [OF 1(2) 1(3) 1(4), of engine registry]
    have "iterations (run lim engine registry (step lim engine registry s)) \<le> max_iterations lim \<and>
         length (began_at (run lim engine registry (step lim engine registry s))) =
           iterations (run lim engine registry (step lim engine registry s)) \<and>
         (\<forall>t \<in> set (began_at (run lim engine registry (step lim engine registry s))).
            t < max_execution_time lim)"
      using 1(1) [OF False] by blast
    with False show ?thesis by (subst (1 2 3 4) run_unfold) simp
  qed
qed

lemma run_aborts_at_limit:
  assumes "phase s = Thinking"
    and "max_iterations lim \<le> iterations s \<or> max_execution_time lim \<le> elapsed s"
  shows "\<exists>r. run lim engine registry s = s\<lparr>phase := Aborted r\<rparr>"
proof -
  have "\<exists>r. step lim engine registry s = s\<lparr>phase := Aborted r\<rparr>"
    using assms by (auto simp: step_def)
  then obtain r where r: "step lim engine registry s = s\<lparr>phase := Aborted r\<rparr>" by blast
  have "run lim engine registry s = run lim engine registry (s\<lparr>phase := Aborted r\<rparr>)"
    using assms(1) r by (subst run_unfold) simp
  also have "\<dots> = s\<lparr>phase := Aborted r\<rparr>"
    by (subst run_unfold) simp
  finally show ?thesis by blast
qed

text \<open>
  C2, as the loop is specified: one run of the agent loop terminates, in the \<open>Done\<close> or in
  the \<open>Aborted\<close> state, after at most the configured maximum number of iterations. Every
  iteration begins before the configured maximum duration has elapsed, and a check that
  finds either bound reached forces the \<open>Aborted\<close> state. The bounds are checked between
  iterations only, so nothing bounds the duration of the run itself.
\<close>

theorem agent_loop_terminates_within_iteration_bound:
  "((\<exists>output_text. phase (run lim engine registry initial) = Done output_text) \<or>
    (\<exists>r. phase (run lim engine registry initial) = Aborted r)) \<and>
   iterations (run lim engine registry initial) \<le> max_iterations lim \<and>
   length (began_at (run lim engine registry initial)) =
     iterations (run lim engine registry initial) \<and>
   (\<forall>t \<in> set (began_at (run lim engine registry initial)). t < max_execution_time lim) \<and>
   (\<forall>s. phase s = Thinking \<and>
        (max_iterations lim \<le> iterations s \<or> max_execution_time lim \<le> elapsed s) \<longrightarrow>
        (\<exists>r. run lim engine registry s = s\<lparr>phase := Aborted r\<rparr>))"
proof -
  have "terminal (phase (run lim engine registry initial))"
    by (rule run_terminal)
  then have a: "(\<exists>output_text. phase (run lim engine registry initial) = Done output_text) \<or>
      (\<exists>r. phase (run lim engine registry initial) = Aborted r)"
    by (cases "phase (run lim engine registry initial)") auto
  have b: "iterations (run lim engine registry initial) \<le> max_iterations lim \<and>
      length (began_at (run lim engine registry initial)) =
        iterations (run lim engine registry initial) \<and>
      (\<forall>t \<in> set (began_at (run lim engine registry initial)). t < max_execution_time lim)"
    by (rule run_keeps_bounds) (simp_all add: initial_def)
  have c: "\<forall>s. phase s = Thinking \<and>
        (max_iterations lim \<le> iterations s \<or> max_execution_time lim \<le> elapsed s) \<longrightarrow>
        (\<exists>r. run lim engine registry s = s\<lparr>phase := Aborted r\<rparr>)"
    using run_aborts_at_limit by blast
  from a b c show ?thesis by blast
qed


theorem agent_loop_terminates_within_iteration_bound_witness:
  "phase (run agent_executor_limits babbling_engine Map.empty initial) = Aborted RetryLimit \<and>
   iterations (run agent_executor_limits babbling_engine Map.empty initial) = 15 \<and>
   15 \<le> max_iterations agent_executor_limits \<and>
   began_at (run agent_executor_limits babbling_engine Map.empty initial) =
     [14, 13, 12, 11, 10, 9, 8, 7, 6, 5, 4, 3, 2, 1, 0] \<and>
   14 < max_execution_time agent_executor_limits \<and>
   phase (initial\<lparr>elapsed := 120\<rparr>) = Thinking \<and>
   max_execution_time agent_executor_limits \<le> elapsed (initial\<lparr>elapsed := 120\<rparr>) \<and>
   run agent_executor_limits babbling_engine Map.empty (initial\<lparr>elapsed := 120\<rparr>) =
     initial\<lparr>elapsed := 120, phase := Aborted TimeLimit\<rparr>"
proof -
  have f: "run agent_executor_limits babbling_engine Map.empty initial =
      \<lparr>phase = Aborted RetryLimit, scratchpad = [ErrorHint, ErrorHint, ErrorHint, ErrorHint, ErrorHint, ErrorHint, ErrorHint,
         ErrorHint, ErrorHint, ErrorHint, ErrorHint, ErrorHint, ErrorHint, ErrorHint], iterations = 15,
       retries = 15, elapsed = 15,
       began_at = [14, 13, 12, 11, 10, 9, 8, 7, 6, 5, 4, 3, 2, 1, 0]\<rparr>"
    by (simp add: run_continues run_stops step_def babbling_engine_def initial_def
        agent_executor_limits_def)
  have g: "run agent_executor_limits babbling_engine Map.empty (initial\<lparr>elapsed := 120\<rparr>) =
      initial\<lparr>elapsed := 120, phase := Aborted TimeLimit\<rparr>"
    by (simp add: run_continues run_stops step_def initial_def agent_executor_limits_def)
  have p: "phase (initial\<lparr>elapsed := 120\<rparr>) = Thinking"
    by (simp add: initial_def)
  have q: "max_execution_time agent_executor_limits \<le> elapsed (initial\<lparr>elapsed := 120\<rparr>)"
    by (simp add: initial_def agent_executor_limits_def)
  from agent_loop_terminates_within_iteration_bound
    [of agent_executor_limits babbling_engine Map.empty] f g p q
  show ?thesis by (simp add: agent_executor_limits_def)
qed

text \<open>
  C2 as stated fails: with the limits of the program, a reasoning engine that answers its
  first call after 500 ticks with a final answer makes the run last 500 ticks, beyond the
  maximum of 120, and the run ends in \<open>Done\<close>, not in \<open>Aborted\<close>.
\<close>

theorem run_exceeds_duration_counterexample:
  "phase (run agent_executor_limits slow_engine Map.empty initial) = Done (U ''Day 1: rest'') \<and>
   elapsed (run agent_executor_limits slow_engine Map.empty initial) = 500 \<and>
   max_execution_time agent_executor_limits = 120"
  by (simp add: run_continues run_stops step_def slow_engine_def initial_def
      agent_executor_limits_def)

end
